theory Spec2Isabelle
  imports Complex_Main "HOL-Library.Word" "HOL-Library.Log_Nat" "HOL-Library.AList"
begin

section \<open>JavaScript values\<close>

text \<open>
  A JavaScript Number is an IEEE-754 double. \<open>Fin s m\<close> is the finite double with sign
  bit \<open>s\<close> (\<open>True\<close> for negative) and magnitude \<open>m\<close>, a non-negative rational that a
  double represents exactly; \<open>Fin True 0\<close> is the negative zero. \<open>Infinity s\<close> is the signed
  infinity.
\<close>

datatype jsnum = NaN | Infinity bool | Fin bool rat

datatype jsval =
    JUndefined
  | JNull
  | JBool bool
  | JNum jsnum
  | JStr string
  | JArr "jsval list"
  | JObj "(string \<times> jsval) list"

text \<open>A length or byte count as a Number (lengths stay far below \<open>2 ^ 53\<close>, so exact).\<close>

definition js_of_nat :: "nat \<Rightarrow> jsnum" where
  "js_of_nat n = Fin False (of_nat n)"

subsection \<open>Double arithmetic\<close>

text \<open>
  Every operation gives the double nearest to the exact result, ties to the even
  significand: 53 bits of significand, the least exponent \<open>-1022\<close> (below it the spacing
  stays \<open>2 ^ -1074\<close>), and a rounded magnitude of \<open>2 ^ 1024\<close> or more is the infinity.
\<close>

definition pow2 :: "int \<Rightarrow> rat" where
  "pow2 e = (if 0 \<le> e then 2 ^ nat e else 1 / 2 ^ nat (- e))"

text \<open>The exponent \<open>e\<close> with \<open>2 ^ e \<le> m < 2 ^ (e + 1)\<close>, for \<open>m > 0\<close>.\<close>

definition floor_log2 :: "rat \<Rightarrow> int" where
  "floor_log2 m =
     (case quotient_of m of (p, q) \<Rightarrow>
        (let d = bitlen p - bitlen q in if pow2 d \<le> m then d else d - 1))"

definition round_half_even :: "rat \<Rightarrow> int" where
  "round_half_even x =
     (let f = \<lfloor>x\<rfloor>; d = x - of_int f
      in if d < 1 / 2 then f else if 1 / 2 < d then f + 1 else if even f then f else f + 1)"

text \<open>The magnitude of the double nearest to the magnitude \<open>m\<close>; \<open>None\<close> is the overflow.\<close>

definition round_mag :: "rat \<Rightarrow> rat option" where
  "round_mag m =
     (if m = 0 then Some 0
      else
        (let e = max (floor_log2 m) (- 1022);
             ulp = pow2 (e - 52);
             v = of_int (round_half_even (m / ulp)) * ulp
         in if pow2 1024 \<le> v then None else Some v))"

definition round_double :: "bool \<Rightarrow> rat \<Rightarrow> jsnum" where
  "round_double s m = (case round_mag m of None \<Rightarrow> Infinity s | Some v \<Rightarrow> Fin s v)"


fun js_div :: "jsnum \<Rightarrow> jsnum \<Rightarrow> jsnum" where
  "js_div NaN _ = NaN"
| "js_div _ NaN = NaN"
| "js_div (Infinity s) (Infinity t) = NaN"
| "js_div (Infinity s) (Fin t n) = Infinity (s \<noteq> t)"
| "js_div (Fin s m) (Infinity t) = Fin (s \<noteq> t) 0"
| "js_div (Fin s m) (Fin t n) =
     (if n = 0 then (if m = 0 then NaN else Infinity (s \<noteq> t))
      else round_double (s \<noteq> t) (m / n))"






type_synonym byte = "8 word"

section \<open>Strings\<close>

text \<open>
  Strings are byte strings. \<open>toLowerCase\<close> maps the ASCII capitals and leaves every other
  byte alone (the bytes of a non-ASCII character are all above 127, and no such character
  lowers to one of the ASCII letters the handlers compare with).
\<close>

definition lower_char :: "char \<Rightarrow> char" where
  "lower_char c =
     (let n = (of_char c :: nat) in if 65 \<le> n \<and> n \<le> 90 then char_of (n + 32) else c)"

definition toLowerCase :: "string \<Rightarrow> string" where
  "toLowerCase s = map lower_char s"

definition digit_char :: "nat \<Rightarrow> char" where
  "digit_char d = char_of (48 + d)"

fun show_nat :: "nat \<Rightarrow> string" where
  "show_nat n = (if n < 10 then [digit_char n] else show_nat (n div 10) @ [digit_char (n mod 10)])"

declare show_nat.simps [simp del]

definition show_int :: "int \<Rightarrow> string" where
  "show_int i = (if i < 0 then CHR ''-'' # show_nat (nat (- i)) else show_nat (nat i))"

subsection \<open>Numbers and strings\<close>


















section \<open>Effects\<close>

text \<open>
  A handler talks to the file system, to the converters and to a child process. The model
  records every such call, in order, in a trace, and takes the answers from an environment
  \<open>env\<close>. A computation yields \<open>Inl msg\<close> when it throws an \<open>Error\<close> whose
  \<open>message\<close> is \<open>msg\<close>.
\<close>

datatype effect =
    Unlink string
  | ReadFile string
  | LibreConvert "byte list" string
  | SharpJpeg string nat
  | Spawn string "string list"

text \<open>
  What the child process does: an \<open>error\<close> event with the system error's message, or a
  \<open>close\<close> event with the exit code (\<open>None\<close> is JavaScript's \<open>null\<close>, a process
  ended by a signal) after the chunks the process wrote to stderr.
\<close>

datatype proc_result = ProcError string | ProcClose "int option" "string list"

record env =
  uploadDir :: string
  ffmpegPath :: string
  uuidv4 :: string
  unlink :: "string \<Rightarrow> string option"
  readFile :: "string \<Rightarrow> string + byte list"
  libre_convert :: "byte list \<Rightarrow> string \<Rightarrow> string + byte list"
  sharp_jpeg :: "string \<Rightarrow> nat \<Rightarrow> string + byte list"
  spawn :: "string \<Rightarrow> string list \<Rightarrow> proc_result"

type_synonym 'a io = "(string + 'a) \<times> effect list"

definition ret :: "'a \<Rightarrow> 'a io" where
  "ret x = (Inr x, [])"

definition perform :: "effect \<Rightarrow> string + 'a \<Rightarrow> 'a io" where
  "perform ev r = (r, [ev])"

definition bind_io :: "'a io \<Rightarrow> ('a \<Rightarrow> 'b io) \<Rightarrow> 'b io" where
  "bind_io m f =
     (case m of
        (Inl e, t) \<Rightarrow> (Inl e, t)
      | (Inr x, t) \<Rightarrow> (case f x of (r, t') \<Rightarrow> (r, t @ t')))"

definition catch_io :: "'a io \<Rightarrow> (string \<Rightarrow> 'a io) \<Rightarrow> 'a io" where
  "catch_io m h =
     (case m of
        (Inl e, t) \<Rightarrow> (case h e of (r, t') \<Rightarrow> (r, t @ t'))
      | (Inr x, t) \<Rightarrow> (Inr x, t))"

text \<open>\<open>try { m } finally { fin }\<close>: \<open>fin\<close> runs after \<open>m\<close> whatever \<open>m\<close> did, and the
  outcome of \<open>m\<close> stands unless \<open>fin\<close> throws.\<close>

definition finally_io :: "'a io \<Rightarrow> unit io \<Rightarrow> 'a io" where
  "finally_io m fin =
     (case m of (r, t) \<Rightarrow>
        (case fin of
           (Inl e, t') \<Rightarrow> (Inl e, t @ t')
         | (Inr _, t') \<Rightarrow> (r, t @ t')))"

definition unlinkAsync :: "env \<Rightarrow> string \<Rightarrow> unit io" where
  "unlinkAsync E p = perform (Unlink p) (case unlink E p of None \<Rightarrow> Inr () | Some msg \<Rightarrow> Inl msg)"

definition readFileAsync :: "env \<Rightarrow> string \<Rightarrow> (byte list) io" where
  "readFileAsync E p = perform (ReadFile p) (readFile E p)"

definition convertAsync :: "env \<Rightarrow> byte list \<Rightarrow> string \<Rightarrow> (byte list) io" where
  "convertAsync E buf ext = perform (LibreConvert buf ext) (libre_convert E buf ext)"

text \<open>\<open>safeUnlink\<close>: the failure of the removal is logged and swallowed.\<close>

definition safeUnlink :: "env \<Rightarrow> string \<Rightarrow> unit io" where
  "safeUnlink E filePath = catch_io (unlinkAsync E filePath) (\<lambda>e. ret ())"

section \<open>Requests and responses\<close>

record uploaded_file =
  file_path :: string
  file_originalname :: string
  file_mimetype :: string
  file_size :: nat

text \<open>A multipart request: the file multer staged, if any, and the text fields of the form
  (each a string, so that \<open>String(v)\<close> is \<open>v\<close>).\<close>

record upload_request =
  req_file :: "uploaded_file option"
  req_body :: "string \<rightharpoonup> string"

text \<open>A response: the status and the object given to \<open>res.json\<close>, as its list of properties.\<close>

record response =
  status :: nat
  body :: "(string \<times> jsval) list"

definition json_resp :: "nat \<Rightarrow> (string \<times> jsval) list \<Rightarrow> response" where
  "json_resp st b = \<lparr>status = st, body = b\<rparr>"

definition get_prop :: "response \<Rightarrow> string \<Rightarrow> jsval" where
  "get_prop r k = (case map_of (body r) k of None \<Rightarrow> JUndefined | Some v \<Rightarrow> v)"

section \<open>The transport envelope\<close>

text \<open>\<open>buffer.toString("base64")\<close>: three bytes give four characters of the alphabet, and
  a last group of one or two bytes is padded with \<open>=\<close>.\<close>

definition b64_alphabet :: string where
  "b64_alphabet = ''ABCDEFGHIJKLMNOPQRSTUVWXYZabcdefghijklmnopqrstuvwxyz0123456789+/''"

definition b64_char :: "nat \<Rightarrow> char" where
  "b64_char n = b64_alphabet ! n"

fun base64 :: "byte list \<Rightarrow> string" where
  "base64 [] = []"
| "base64 [a] =
     [b64_char (unat a div 4), b64_char (unat a mod 4 * 16), CHR ''='', CHR ''='']"
| "base64 [a, b] =
     [b64_char (unat a div 4), b64_char (unat a mod 4 * 16 + unat b div 16),
      b64_char (unat b mod 16 * 4), CHR ''='']"
| "base64 (a # b # c # rest) =
     [b64_char (unat a div 4), b64_char (unat a mod 4 * 16 + unat b div 16),
      b64_char (unat b mod 16 * 4 + unat c div 64), b64_char (unat c mod 64)] @ base64 rest"

text \<open>The decoder a client applies to the payload of a data URL.\<close>

fun index_of :: "'a \<Rightarrow> 'a list \<Rightarrow> nat option" where
  "index_of x [] = None"
| "index_of x (y # ys) = (if x = y then Some 0 else map_option Suc (index_of x ys))"

definition b64_val :: "char \<Rightarrow> nat option" where
  "b64_val c = index_of c b64_alphabet"

fun base64_decode :: "string \<Rightarrow> byte list option" where
  "base64_decode [] = Some []"
| "base64_decode (c1 # c2 # c3 # c4 # rest) =
     (case (b64_val c1, b64_val c2) of
        (Some v1, Some v2) \<Rightarrow>
          (if c3 = CHR ''='' \<and> c4 = CHR ''='' \<and> rest = [] then
             Some [of_nat (v1 * 4 + v2 div 16)]
           else
             (case b64_val c3 of
                Some v3 \<Rightarrow>
                  (if c4 = CHR ''='' \<and> rest = [] then
                     Some [of_nat (v1 * 4 + v2 div 16), of_nat (v2 mod 16 * 16 + v3 div 4)]
                   else
                     (case (b64_val c4, base64_decode rest) of
                        (Some v4, Some bs) \<Rightarrow>
                          Some (of_nat (v1 * 4 + v2 div 16) # of_nat (v2 mod 16 * 16 + v3 div 4)
                                # of_nat (v3 mod 4 * 64 + v4) # bs)
                      | _ \<Rightarrow> None))
              | None \<Rightarrow> None))
      | _ \<Rightarrow> None)"
| "base64_decode _ = None"

text \<open>\<open>{ fileName, mimeType, dataUrl, ...extra }\<close>: a property of \<open>extra\<close> replaces a
  property of the same name, and is added at the end otherwise.\<close>

definition js_spread :: "(string \<times> jsval) list \<Rightarrow> (string \<times> jsval) list \<Rightarrow> (string \<times> jsval) list" where
  "js_spread obj extra = fold (\<lambda>(k, v) al. AList.update k v al) extra obj"

definition fileToDataUrlResponse ::
  "byte list \<Rightarrow> string \<Rightarrow> string \<Rightarrow> (string \<times> jsval) list \<Rightarrow> (string \<times> jsval) list" where
  "fileToDataUrlResponse buffer mimeType fileName extra =
     (let base64 = base64 buffer;
          dataUrl = ''data:'' @ mimeType @ '';base64,'' @ base64
      in js_spread
           [(''fileName'', JStr fileName), (''mimeType'', JStr mimeType), (''dataUrl'', JStr dataUrl)]
           extra)"

section \<open>Audio conversion\<close>

text \<open>\<open>path.join(uploadDir, name)\<close> for a name without separators or dot segments, under
  the normalised upload directory.\<close>

definition path_join :: "string \<Rightarrow> string \<Rightarrow> string" where
  "path_join dir name = dir @ ''/'' @ name"

text \<open>\<open>name.replace(/\.[^.]+$/, repl)\<close>: the match is the last dot of the name with what
  follows it, when at least one character follows it; a name without such a match is
  returned as it is. (\<open>repl\<close> holds no \<open>$\<close>.)\<close>

definition replace_final_ext :: "string \<Rightarrow> string \<Rightarrow> string" where
  "replace_final_ext name repl =
     (let after = takeWhile (\<lambda>c. c \<noteq> CHR ''.'') (rev name)
      in if length after < length name \<and> after \<noteq> []
         then take (length name - length after - 1) name @ repl
         else name)"

definition allowedInputTypes :: "string list" where
  "allowedInputTypes =
     [''audio/flac'', ''audio/x-flac'', ''audio/aac'', ''audio/x-aac'', ''audio/wav'',
      ''audio/x-wav'', ''audio/ogg'', ''audio/x-ogg'', ''audio/alac'']"

definition allowedOutputFormats :: "string list" where
  "allowedOutputFormats = [''mp3'', ''aac'', ''wav'', ''ogg'']"

definition formatArgs :: "string \<Rightarrow> string \<Rightarrow> string list" where
  "formatArgs safeFormat bitrate =
     (if safeFormat = ''mp3'' then [''-codec:a'', ''libmp3lame'', ''-b:a'', bitrate]
      else if safeFormat = ''aac'' then [''-codec:a'', ''aac'', ''-b:a'', bitrate]
      else if safeFormat = ''wav'' then [''-codec:a'', ''pcm_s16le'']
      else if safeFormat = ''ogg'' then [''-codec:a'', ''libvorbis'', ''-b:a'', bitrate]
      else [])"

definition ffArgs :: "string \<Rightarrow> string \<Rightarrow> string \<Rightarrow> string \<Rightarrow> string list" where
  "ffArgs inputPath safeFormat bitrate outputPath =
     (let commonArgs = [''-y'', ''-i'', inputPath, ''-vn'']
      in commonArgs @ formatArgs safeFormat bitrate @ [outputPath])"

text \<open>The template literal \<open>${code}\<close>.\<close>

definition show_code :: "int option \<Rightarrow> string" where
  "show_code code = (case code of None \<Rightarrow> ''null'' | Some c \<Rightarrow> show_int c)"

text \<open>The promise around \<open>spawn\<close>: rejected by an \<open>error\<close> event with that error, resolved
  by a \<open>close\<close> event with code 0, rejected by any other \<open>close\<close> with the code and the
  text accumulated from stderr.\<close>

definition run_ffmpeg :: "env \<Rightarrow> string list \<Rightarrow> unit io" where
  "run_ffmpeg E args =
     perform (Spawn (ffmpegPath E) args)
       (case spawn E (ffmpegPath E) args of
          ProcError msg \<Rightarrow> Inl msg
        | ProcClose code chunks \<Rightarrow>
            (let stderr = concat chunks
             in if code = Some 0 then Inr ()
                else Inl (''ffmpeg exited with code '' @ show_code code @ '': '' @ stderr)))"

definition audio_mimeType :: "string \<Rightarrow> string" where
  "audio_mimeType safeFormat =
     (let mimeType = ''audio/mpeg'';
          mimeType = (if safeFormat = ''aac'' then ''audio/aac'' else mimeType);
          mimeType = (if safeFormat = ''wav'' then ''audio/wav'' else mimeType);
          mimeType = (if safeFormat = ''ogg'' then ''audio/ogg'' else mimeType)
      in mimeType)"

definition targetFormat_of :: "upload_request \<Rightarrow> string" where
  "targetFormat_of req = (case req_body req ''targetFormat'' of None \<Rightarrow> ''mp3'' | Some v \<Rightarrow> v)"

definition bitrate_of :: "upload_request \<Rightarrow> string" where
  "bitrate_of req = (case req_body req ''bitrate'' of None \<Rightarrow> ''192k'' | Some v \<Rightarrow> v)"

definition audio_outputPath :: "env \<Rightarrow> string \<Rightarrow> string" where
  "audio_outputPath E safeFormat = path_join (uploadDir E) (uuidv4 E @ ''.'' @ safeFormat)"

definition audio_convert :: "env \<Rightarrow> upload_request \<Rightarrow> response io" where
  "audio_convert E req =
     (case req_file req of
        None \<Rightarrow> ret (json_resp 400 [(''error'', JStr ''No file uploaded'')])
      | Some file \<Rightarrow>
          (let inputPath = file_path file;
               targetFormat = targetFormat_of req;
               bitrate = bitrate_of req;
               safeFormat = toLowerCase targetFormat
           in if safeFormat \<notin> set allowedOutputFormats then
                bind_io (safeUnlink E inputPath)
                  (\<lambda>_. ret (json_resp 400 [(''error'', JStr ''Invalid target format'')]))
              else if file_mimetype file \<notin> set allowedInputTypes then
                bind_io (safeUnlink E inputPath)
                  (\<lambda>_. ret (json_resp 400 [(''error'', JStr ''Unsupported input audio format'')]))
              else
                (let outputPath = audio_outputPath E safeFormat
                 in finally_io
                      (catch_io
                         (bind_io (run_ffmpeg E (ffArgs inputPath safeFormat bitrate outputPath))
                            (\<lambda>_. bind_io (readFileAsync E outputPath)
                               (\<lambda>convertedBuffer.
                                  ret (json_resp 200
                                    (fileToDataUrlResponse convertedBuffer
                                       (audio_mimeType safeFormat)
                                       (replace_final_ext (file_originalname file)
                                          (''.'' @ safeFormat))
                                       [(''targetFormat'', JStr safeFormat),
                                        (''bitrate'', JStr bitrate),
                                        (''size'', JNum (js_of_nat (length convertedBuffer)))])))))
                         (\<lambda>msg. ret (json_resp 500
                            [(''error'', JStr ''Audio conversion failed''),
                             (''details'', JStr msg)])))
                      (bind_io (safeUnlink E inputPath) (\<lambda>_. safeUnlink E outputPath)))))"

subsection \<open>A target format that is not text\<close>

text \<open>
  The upload middleware delivers a form field sent once as a string, a field sent several
  times (or named with \<open>[]\<close>) as an array, and a field named with a bracketed key as an
  object without a prototype. \<open>String(v)\<close> is the string itself, the elements of an array
  converted and joined with commas, and a \<open>TypeError\<close> for such an object.
\<close>

datatype form_value =
    FText string
  | FList "form_value list"
  | FDict "(string \<times> form_value) list"

fun js_String :: "form_value \<Rightarrow> string + string"
  and js_join :: "form_value list \<Rightarrow> string + string" where
  "js_String (FText s) = Inr s"
| "js_String (FList xs) = js_join xs"
| "js_String (FDict kvs) = Inl ''Cannot convert object to primitive value''"
| "js_join [] = Inr []"
| "js_join [x] = js_String x"
| "js_join (x # y # ys) =
     (case js_String x of
        Inl e \<Rightarrow> Inl e
      | Inr s \<Rightarrow> (case js_join (y # ys) of Inl e \<Rightarrow> Inl e | Inr t \<Rightarrow> Inr (s @ '','' @ t)))"

definition String_io :: "form_value \<Rightarrow> string io" where
  "String_io v = (js_String v, [])"

text \<open>The audio request with its \<open>targetFormat\<close> as the middleware delivers it (the
  \<open>bitrate\<close> stays a text field).\<close>

record audio_form =
  form_file :: "uploaded_file option"
  form_targetFormat :: "form_value option"
  form_bitrate :: "string option"

text \<open>
  The same handler on such a request. \<open>String(targetFormat)\<close> is evaluated before the
  \<open>try\<close> block: when it throws, the handler's promise is rejected, with no response and
  no cleanup.
\<close>

definition audio_convert_form :: "env \<Rightarrow> audio_form \<Rightarrow> response io" where
  "audio_convert_form E req =
     (case form_file req of
        None \<Rightarrow> ret (json_resp 400 [(''error'', JStr ''No file uploaded'')])
      | Some file \<Rightarrow>
          (let inputPath = file_path file;
               targetFormat = (case form_targetFormat req of None \<Rightarrow> FText ''mp3'' | Some v \<Rightarrow> v);
               bitrate = (case form_bitrate req of None \<Rightarrow> ''192k'' | Some b \<Rightarrow> b)
           in bind_io (String_io targetFormat)
                (\<lambda>str.
                   (let safeFormat = toLowerCase str
                    in if safeFormat \<notin> set allowedOutputFormats then
                         bind_io (safeUnlink E inputPath)
                           (\<lambda>_. ret (json_resp 400 [(''error'', JStr ''Invalid target format'')]))
                       else if file_mimetype file \<notin> set allowedInputTypes then
                         bind_io (safeUnlink E inputPath)
                           (\<lambda>_. ret (json_resp 400
                              [(''error'', JStr ''Unsupported input audio format'')]))
                       else
                         (let outputPath = audio_outputPath E safeFormat
                          in finally_io
                               (catch_io
                                  (bind_io
                                     (run_ffmpeg E (ffArgs inputPath safeFormat bitrate outputPath))
                                     (\<lambda>_. bind_io (readFileAsync E outputPath)
                                        (\<lambda>convertedBuffer.
                                           ret (json_resp 200
                                             (fileToDataUrlResponse convertedBuffer
                                                (audio_mimeType safeFormat)
                                                (replace_final_ext (file_originalname file)
                                                   (''.'' @ safeFormat))
                                                [(''targetFormat'', JStr safeFormat),
                                                 (''bitrate'', JStr bitrate),
                                                 (''size'',
                                                  JNum (js_of_nat (length convertedBuffer)))])))))
                                  (\<lambda>msg. ret (json_resp 500
                                     [(''error'', JStr ''Audio conversion failed''),
                                      (''details'', JStr msg)])))
                               (bind_io (safeUnlink E inputPath)
                                  (\<lambda>_. safeUnlink E outputPath)))))))"

section \<open>Document conversion\<close>

text \<open>
  \<open>path.extname\<close> (POSIX): within the last portion of the path, trailing separators
  apart, the text from the last dot to the end; empty when that portion has no dot, when
  its only dot is its first character, or when it is \<open>..\<close>.
\<close>

definition last_portion :: "string \<Rightarrow> string" where
  "last_portion p =
     rev (takeWhile (\<lambda>c. c \<noteq> CHR ''/'') (dropWhile (\<lambda>c. c = CHR ''/'') (rev p)))"

definition extname :: "string \<Rightarrow> string" where
  "extname p =
     (let base = last_portion p;
          after = takeWhile (\<lambda>c. c \<noteq> CHR ''.'') (rev base);
          startDot = length base - length after - 1
      in if length after = length base \<or> startDot = 0 \<or> base = ''..'' then []
         else drop startDot base)"

text \<open>\<open>name.replace(re, repl)\<close> for a regular expression \<open>re\<close> that is the literal \<open>sfx\<close>
  (in lower case, without letters outside ASCII) anchored at the end, with the flag \<open>i\<close>.\<close>

definition replace_suffix_ci :: "string \<Rightarrow> string \<Rightarrow> string \<Rightarrow> string" where
  "replace_suffix_ci name sfx repl =
     (let n = length name - length sfx
      in if length sfx \<le> length name \<and> toLowerCase (drop n name) = sfx
         then take n name @ repl
         else name)"

definition docx_to_pdf :: "env \<Rightarrow> upload_request \<Rightarrow> response io" where
  "docx_to_pdf E req =
     (case req_file req of
        None \<Rightarrow> ret (json_resp 400 [(''error'', JStr ''No file uploaded'')])
      | Some file \<Rightarrow>
          (let inputPath = file_path file;
               outputExt = ''.pdf''
           in finally_io
                (catch_io
                   (let ext = toLowerCase (extname (file_originalname file))
                    in if ext \<noteq> ''.docx'' then
                         bind_io (safeUnlink E inputPath)
                           (\<lambda>_. ret (json_resp 400
                              [(''error'', JStr ''Only .docx files are allowed'')]))
                       else
                         bind_io (readFileAsync E inputPath)
                           (\<lambda>docxBuf. bind_io (convertAsync E docxBuf outputExt)
                              (\<lambda>pdfBuf.
                                 ret (json_resp 200
                                   (fileToDataUrlResponse pdfBuf ''application/pdf''
                                      (replace_suffix_ci (file_originalname file) ''.docx'' ''.pdf'')
                                      [])))))
                   (\<lambda>msg. ret (json_resp 500
                      [(''error'', JStr ''Conversion failed''), (''details'', JStr msg)])))
                (safeUnlink E inputPath)))"

definition pdf_to_docx :: "env \<Rightarrow> upload_request \<Rightarrow> response io" where
  "pdf_to_docx E req =
     (case req_file req of
        None \<Rightarrow> ret (json_resp 400 [(''error'', JStr ''No file uploaded'')])
      | Some file \<Rightarrow>
          (let inputPath = file_path file;
               outputExt = ''.docx''
           in finally_io
                (catch_io
                   (let ext = toLowerCase (extname (file_originalname file))
                    in if ext \<noteq> ''.pdf'' then
                         bind_io (safeUnlink E inputPath)
                           (\<lambda>_. ret (json_resp 400
                              [(''error'', JStr ''Only .pdf files are allowed'')]))
                       else
                         bind_io (readFileAsync E inputPath)
                           (\<lambda>pdfBuf. bind_io (convertAsync E pdfBuf outputExt)
                              (\<lambda>docxBuf.
                                 ret (json_resp 200
                                   (fileToDataUrlResponse docxBuf
                                      ''application/vnd.openxmlformats-officedocument.wordprocessingml.document''
                                      (replace_suffix_ci (file_originalname file) ''.pdf'' ''.docx'')
                                      [])))))
                   (\<lambda>msg. ret (json_resp 500
                      [(''error'', JStr ''Conversion failed''), (''details'', JStr msg)])))
                (safeUnlink E inputPath)))"

section \<open>Image compression\<close>

definition sharp_jpeg_toBuffer :: "env \<Rightarrow> string \<Rightarrow> nat \<Rightarrow> (byte list) io" where
  "sharp_jpeg_toBuffer E p quality = perform (SharpJpeg p quality) (sharp_jpeg E p quality)"

definition image_compress :: "env \<Rightarrow> upload_request \<Rightarrow> response io" where
  "image_compress E req =
     (case req_file req of
        None \<Rightarrow> ret (json_resp 400 [(''error'', JStr ''No file uploaded'')])
      | Some file \<Rightarrow>
          (let inputPath = file_path file;
               originalSize = js_of_nat (file_size file);
               outputName = uuidv4 E @ ''.jpg''
           in finally_io
                (catch_io
                   (let mime = file_mimetype file
                    in if mime \<notin> set [''image/jpeg'', ''image/png'', ''image/webp''] then
                         bind_io (safeUnlink E inputPath)
                           (\<lambda>_. ret (json_resp 400
                              [(''error'', JStr ''Only JPEG, PNG, or WebP images are allowed'')]))
                       else
                         bind_io (sharp_jpeg_toBuffer E inputPath 70)
                           (\<lambda>compressedBuffer.
                              (let compressedSize = js_of_nat (length compressedBuffer)
                               in ret (json_resp 200
                                    (fileToDataUrlResponse compressedBuffer ''image/jpeg'' outputName
                                       [(''originalSize'', JNum originalSize),
                                        (''compressedSize'', JNum compressedSize),
                                        (''compressionRatio'',
                                           JNum (js_div compressedSize originalSize))])))))
                   (\<lambda>msg. ret (json_resp 500
                      [(''error'', JStr ''Image compression failed''), (''details'', JStr msg)])))
                (safeUnlink E inputPath)))"

section \<open>BMI calculator\<close>





section \<open>Reading a trace\<close>

fun is_Spawn :: "effect \<Rightarrow> bool" where
  "is_Spawn (Spawn exe args) = True"
| "is_Spawn _ = False"

fun is_Conversion :: "effect \<Rightarrow> bool" where
  "is_Conversion (LibreConvert buf ext) = True"
| "is_Conversion _ = False"

text \<open>The number of removal attempts on a path.\<close>

definition removals :: "string \<Rightarrow> effect list \<Rightarrow> nat" where
  "removals p t = count_list t (Unlink p)"

section \<open>Example environments and requests\<close>

definition env_ok :: env where
  "env_ok =
     \<lparr>uploadDir = ''/srv/uploads'', ffmpegPath = ''/bin/ffmpeg'', uuidv4 = ''u1'',
      unlink = (\<lambda>p. None),
      readFile = (\<lambda>p. Inr [1, 2, 3]),
      libre_convert = (\<lambda>buf ext. Inr [37, 80]),
      sharp_jpeg = (\<lambda>p q. Inr [255, 216]),
      spawn = (\<lambda>exe args. ProcClose (Some 0) [])\<rparr>"

definition env_exit1 :: env where
  "env_exit1 = env_ok\<lparr>spawn := (\<lambda>exe args. ProcClose (Some 1) [''bad '', ''input''])\<rparr>"

definition env_enoent :: env where
  "env_enoent = env_ok\<lparr>spawn := (\<lambda>exe args. ProcError ''spawn ENOENT'')\<rparr>"

definition flac_file :: uploaded_file where
  "flac_file =
     \<lparr>file_path = ''/srv/uploads/f1'', file_originalname = ''song.flac'',
      file_mimetype = ''audio/flac'', file_size = 10\<rparr>"

definition audio_req :: "(string \<rightharpoonup> string) \<Rightarrow> upload_request" where
  "audio_req form = \<lparr>req_file = Some flac_file, req_body = form\<rparr>"

definition mp4_file :: uploaded_file where
  "mp4_file =
     \<lparr>file_path = ''/srv/uploads/f2'', file_originalname = ''clip.mp4'',
      file_mimetype = ''video/mp4'', file_size = 10\<rparr>"

definition named_file :: "string \<Rightarrow> string \<Rightarrow> uploaded_file" where
  "named_file name mime =
     \<lparr>file_path = ''/srv/uploads/f3'', file_originalname = name,
      file_mimetype = mime, file_size = 4\<rparr>"

definition upload_of :: "uploaded_file \<Rightarrow> upload_request" where
  "upload_of f = \<lparr>req_file = Some f, req_body = Map.empty\<rparr>"




section \<open>Basic facts\<close>

lemma safeUnlink_eq: "safeUnlink E p = (Inr (), [Unlink p])"
  by (simp add: safeUnlink_def unlinkAsync_def catch_io_def perform_def ret_def
      split: option.splits)

lemmas io_defs =
  bind_io_def catch_io_def finally_io_def perform_def ret_def safeUnlink_eq
  readFileAsync_def convertAsync_def


lemma lower_mp3: "toLowerCase ''mp3'' = ''mp3''"
  by code_simp

lemma lower_OGG: "toLowerCase ''OGG'' = ''ogg''"
  by code_simp

lemma lower_flac: "toLowerCase ''flac'' = ''flac''"
  by code_simp

lemma audio_trace:
  assumes "req_file req = Some f"
      and "toLowerCase (targetFormat_of req) \<in> set allowedOutputFormats"
      and "file_mimetype f \<in> set allowedInputTypes"
  shows "\<exists>r. snd (audio_convert E req) =
           Spawn (ffmpegPath E)
             (ffArgs (file_path f) (toLowerCase (targetFormat_of req)) (bitrate_of req)
                (audio_outputPath E (toLowerCase (targetFormat_of req)))) # r
           \<and> filter is_Spawn r = []"
  using assms
  by (auto simp: audio_convert_def Let_def io_defs run_ffmpeg_def
      split: proc_result.splits sum.splits)

section \<open>Audio: validation\<close>

text \<open>
  C5, as stated, fails: a request whose target format and MIME type are both outside
  their allow-lists is answered with \<open>Invalid target format\<close>, since the format is
  checked first.
\<close>

theorem audio_validation_counterexample:
  "file_mimetype mp4_file \<notin> set allowedInputTypes \<and>
   fst (audio_convert env_ok
          \<lparr>req_file = Some mp4_file, req_body = [''targetFormat'' \<mapsto> ''flac'']\<rparr>)
     \<noteq> Inr (json_resp 400 [(''error'', JStr ''Unsupported input audio format'')])"
  by (simp add: audio_convert_def targetFormat_of_def lower_flac allowedOutputFormats_def
      allowedInputTypes_def mp4_file_def io_defs json_resp_def)

text \<open>
  C5 (amended): an audio request with a file whose target format, in lower case, is not
  one of mp3, aac, wav, ogg gets status 400 with \<open>Invalid target format\<close>; one whose
  target format is allowed and whose MIME type is not in the input allow-list gets status
  400 with \<open>Unsupported input audio format\<close>; in both cases no process is spawned.
\<close>

theorem audio_validation:
  assumes "req_file req = Some f"
  shows "(toLowerCase (targetFormat_of req) \<notin> {''mp3'', ''aac'', ''wav'', ''ogg''} \<longrightarrow>
            fst (audio_convert E req) =
              Inr (json_resp 400 [(''error'', JStr ''Invalid target format'')])
            \<and> filter is_Spawn (snd (audio_convert E req)) = []) \<and>
         (toLowerCase (targetFormat_of req) \<in> {''mp3'', ''aac'', ''wav'', ''ogg''}
            \<and> file_mimetype f \<notin> set allowedInputTypes \<longrightarrow>
            fst (audio_convert E req) =
              Inr (json_resp 400 [(''error'', JStr ''Unsupported input audio format'')])
            \<and> filter is_Spawn (snd (audio_convert E req)) = [])"
  using assms
  by (simp add: audio_convert_def allowedOutputFormats_def io_defs Let_def)

theorem audio_validation_witness:
  "fst (audio_convert env_ok (audio_req [''targetFormat'' \<mapsto> ''flac''])) =
     Inr (json_resp 400 [(''error'', JStr ''Invalid target format'')]) \<and>
   filter is_Spawn (snd (audio_convert env_ok (audio_req [''targetFormat'' \<mapsto> ''flac'']))) = [] \<and>
   fst (audio_convert env_ok (upload_of mp4_file)) =
     Inr (json_resp 400 [(''error'', JStr ''Unsupported input audio format'')]) \<and>
   filter is_Spawn (snd (audio_convert env_ok (upload_of mp4_file))) = []"
proof -
  have 1: "req_file (audio_req [''targetFormat'' \<mapsto> ''flac'']) = Some flac_file"
    by (simp add: audio_req_def)
  have 2: "toLowerCase (targetFormat_of (audio_req [''targetFormat'' \<mapsto> ''flac''])) = ''flac''"
    by (simp add: targetFormat_of_def audio_req_def lower_flac)
  have 3: "req_file (upload_of mp4_file) = Some mp4_file"
    by (simp add: upload_of_def)
  have 4: "toLowerCase (targetFormat_of (upload_of mp4_file)) = ''mp3''"
    by (simp add: targetFormat_of_def upload_of_def lower_mp3)
  have 5: "file_mimetype mp4_file \<notin> set allowedInputTypes"
    by (simp add: mp4_file_def allowedInputTypes_def)
  show ?thesis
    using audio_validation [OF 1, of env_ok] audio_validation [OF 3, of env_ok] 5
    by (simp add: 2 4)
qed

section \<open>Audio: the arguments of the process\<close>

text \<open>
  C6: for an accepted audio request exactly one process is spawned, and its arguments
  are \<open>-y\<close>, \<open>-i\<close>, the staged input path, \<open>-vn\<close>, the codec arguments of the format and
  the allocated output path. For mp3, aac and ogg the codec arguments end with \<open>-b:a\<close>
  and the bitrate field as sent (\<open>192k\<close> when the field is absent); for wav they are
  \<open>-codec:a pcm_s16le\<close> and the bitrate does not occur.
\<close>

theorem audio_ffmpeg_arguments:
  assumes "req_file req = Some f"
      and "toLowerCase (targetFormat_of req) = fmt"
      and "fmt \<in> set allowedOutputFormats"
      and "file_mimetype f \<in> set allowedInputTypes"
  shows "filter is_Spawn (snd (audio_convert E req)) =
           [Spawn (ffmpegPath E)
              ([''-y'', ''-i'', file_path f, ''-vn''] @
               (if fmt = ''wav'' then [''-codec:a'', ''pcm_s16le'']
                else [''-codec:a'',
                      (if fmt = ''mp3'' then ''libmp3lame''
                       else if fmt = ''aac'' then ''aac'' else ''libvorbis''),
                      ''-b:a'',
                      (case req_body req ''bitrate'' of None \<Rightarrow> ''192k'' | Some b \<Rightarrow> b)]) @
               [path_join (uploadDir E) (uuidv4 E @ ''.'' @ fmt)])]"
proof -
  have args: "ffArgs (file_path f) fmt (bitrate_of req) (audio_outputPath E fmt) =
      [''-y'', ''-i'', file_path f, ''-vn''] @
               (if fmt = ''wav'' then [''-codec:a'', ''pcm_s16le'']
                else [''-codec:a'',
                      (if fmt = ''mp3'' then ''libmp3lame''
                       else if fmt = ''aac'' then ''aac'' else ''libvorbis''),
                      ''-b:a'',
                      (case req_body req ''bitrate'' of None \<Rightarrow> ''192k'' | Some b \<Rightarrow> b)]) @
               [path_join (uploadDir E) (uuidv4 E @ ''.'' @ fmt)]"
    using assms(3)
    by (auto simp: ffArgs_def formatArgs_def bitrate_of_def audio_outputPath_def
        allowedOutputFormats_def)
  from audio_trace [OF assms(1) _ assms(4), of E] assms(2,3)
  obtain r where "snd (audio_convert E req) =
     Spawn (ffmpegPath E) (ffArgs (file_path f) fmt (bitrate_of req) (audio_outputPath E fmt)) # r"
     and "filter is_Spawn r = []"
    by auto
  then show ?thesis
    by (simp only: args is_Spawn.simps filter.simps if_True)
qed

theorem audio_ffmpeg_arguments_witness:
  "filter is_Spawn
     (snd (audio_convert env_ok (audio_req [''targetFormat'' \<mapsto> ''OGG'', ''bitrate'' \<mapsto> ''128k'']))) =
   [Spawn ''/bin/ffmpeg''
      [''-y'', ''-i'', ''/srv/uploads/f1'', ''-vn'', ''-codec:a'', ''libvorbis'', ''-b:a'', ''128k'',
       ''/srv/uploads/u1.ogg'']]"
proof -
  let ?req = "audio_req [''targetFormat'' \<mapsto> ''OGG'', ''bitrate'' \<mapsto> ''128k'']"
  have 1: "req_file ?req = Some flac_file"
    by (simp add: audio_req_def)
  have 2: "toLowerCase (targetFormat_of ?req) = ''ogg''"
    by (simp add: targetFormat_of_def audio_req_def lower_OGG)
  have 3: "''ogg'' \<in> set allowedOutputFormats"
    by (simp add: allowedOutputFormats_def)
  have 4: "file_mimetype flac_file \<in> set allowedInputTypes"
    by (simp add: flac_file_def allowedInputTypes_def)
  show ?thesis
    using audio_ffmpeg_arguments [OF 1 2 3 4, of env_ok]
    by (simp add: env_ok_def audio_req_def flac_file_def path_join_def)
qed

lemma get_prop_simps:
  "get_prop (json_resp st b) k = (case map_of b k of None \<Rightarrow> JUndefined | Some v \<Rightarrow> v)"
  "status (json_resp st b) = st"
  by (simp_all add: get_prop_def json_resp_def)

lemma envelope_audio:
  "fileToDataUrlResponse buf mt fn [(''targetFormat'', a), (''bitrate'', b), (''size'', c)] =
     [(''fileName'', JStr fn), (''mimeType'', JStr mt),
      (''dataUrl'', JStr (''data:'' @ mt @ '';base64,'' @ base64 buf)),
      (''targetFormat'', a), (''bitrate'', b), (''size'', c)]"
  by (simp add: fileToDataUrlResponse_def js_spread_def)

section \<open>Audio: the outcome of the process\<close>

text \<open>
  C2: for an accepted audio request, when the process closes with code 0 and the output
  path is read, the response has status 200 and its \<open>size\<close> is the number of bytes read;
  when it closes with a code other than 0 the response has status 500 and its details
  are \<open>ffmpeg exited with code\<close>, the code and all of the text written to stderr; when
  the process cannot be started the response has status 500 and its details are the
  message of the system error.
\<close>
theorem audio_process_outcome:
  assumes "req_file req = Some f"
      and "toLowerCase (targetFormat_of req) = fmt"
      and "fmt \<in> set allowedOutputFormats"
      and "file_mimetype f \<in> set allowedInputTypes"
      and "spawn E (ffmpegPath E)
             (ffArgs (file_path f) fmt (bitrate_of req) (audio_outputPath E fmt)) = outcome"
  shows "(\<forall>chunks buf. outcome = ProcClose (Some 0) chunks
            \<and> readFile E (audio_outputPath E fmt) = Inr buf \<longrightarrow>
            (\<exists>r. fst (audio_convert E req) = Inr r \<and> status r = 200
               \<and> get_prop r ''size'' = JNum (js_of_nat (length buf)))) \<and>
         (\<forall>c chunks. outcome = ProcClose (Some c) chunks \<and> c \<noteq> 0 \<longrightarrow>
            fst (audio_convert E req) =
              Inr (json_resp 500
                [(''error'', JStr ''Audio conversion failed''),
                 (''details'',
                  JStr (''ffmpeg exited with code '' @ show_int c @ '': '' @ concat chunks))])) \<and>
         (\<forall>msg. outcome = ProcError msg \<longrightarrow>
            fst (audio_convert E req) =
              Inr (json_resp 500
                [(''error'', JStr ''Audio conversion failed''), (''details'', JStr msg)]))"
  using assms
  by (auto simp: audio_convert_def Let_def io_defs run_ffmpeg_def show_code_def envelope_audio
      get_prop_simps)


lemma show_int_1: "show_int 1 = ''1''" by code_simp

lemma audio_req_facts:
  "req_file (audio_req form) = Some flac_file"
  "file_mimetype flac_file \<in> set allowedInputTypes"
  "file_path flac_file = ''/srv/uploads/f1''"
  "file_originalname flac_file = ''song.flac''"
  by (simp_all add: audio_req_def flac_file_def allowedInputTypes_def)

lemma target_default: "targetFormat_of (audio_req Map.empty) = ''mp3''"
  by (simp add: targetFormat_of_def audio_req_def)

lemma mp3_allowed: "''mp3'' \<in> set allowedOutputFormats"
  by (simp add: allowedOutputFormats_def)

theorem audio_process_outcome_witness:
  "(\<exists>r. fst (audio_convert env_ok (audio_req Map.empty)) = Inr r \<and> status r = 200
       \<and> get_prop r ''size'' = JNum (js_of_nat 3)) \<and>
   fst (audio_convert env_exit1 (audio_req Map.empty)) =
     Inr (json_resp 500
       [(''error'', JStr ''Audio conversion failed''),
        (''details'', JStr ''ffmpeg exited with code 1: bad input'')]) \<and>
   fst (audio_convert env_enoent (audio_req Map.empty)) =
     Inr (json_resp 500
       [(''error'', JStr ''Audio conversion failed''), (''details'', JStr ''spawn ENOENT'')])"
proof -
  have fmt: "toLowerCase (targetFormat_of (audio_req Map.empty)) = ''mp3''"
    by (simp add: target_default lower_mp3)
  note t = audio_process_outcome [OF audio_req_facts(1) fmt mp3_allowed audio_req_facts(2) refl]
  have a: "\<exists>r. fst (audio_convert env_ok (audio_req Map.empty)) = Inr r \<and> status r = 200
       \<and> get_prop r ''size'' = JNum (js_of_nat 3)"
    using t [of env_ok] by (simp add: env_ok_def numeral_3_eq_3)
  have b: "fst (audio_convert env_exit1 (audio_req Map.empty)) =
     Inr (json_resp 500
       [(''error'', JStr ''Audio conversion failed''),
        (''details'', JStr ''ffmpeg exited with code 1: bad input'')])"
    using t [of env_exit1] by (simp add: env_exit1_def env_ok_def show_int_1)
  have c: "fst (audio_convert env_enoent (audio_req Map.empty)) =
     Inr (json_resp 500
       [(''error'', JStr ''Audio conversion failed''), (''details'', JStr ''spawn ENOENT'')])"
    using t [of env_enoent] by (simp add: env_enoent_def env_ok_def)
  show ?thesis using a b c by blast
qed

lemma length_toLowerCase: "length (toLowerCase s) = length s"
  by (simp add: toLowerCase_def)

lemma last_portion_plain: "CHR ''/'' \<notin> set p \<Longrightarrow> last_portion p = p"
proof -
  assume a: "CHR ''/'' \<notin> set p"
  then have 1: "dropWhile (\<lambda>c. c = CHR ''/'') (rev p) = rev p"
    by (cases "rev p") (auto simp: in_set_conv_decomp)
  from a have 2: "takeWhile (\<lambda>c. c \<noteq> CHR ''/'') (rev p) = rev p"
    by (intro takeWhile_eq_all_conv [THEN iffD2]) auto
  show ?thesis by (simp add: last_portion_def 1 2)
qed

lemma extname_suffix:
  assumes "CHR ''/'' \<notin> set name" and "toLowerCase (extname name) = sfx" and "sfx \<noteq> []"
  shows "length sfx \<le> length name \<and> extname name = drop (length name - length sfx) name"
proof -
  define k where "k = length name - length (takeWhile (\<lambda>c. c \<noteq> CHR ''.'') (rev name)) - 1"
  have ne: "extname name \<noteq> []"
    using assms(2,3) by (auto simp: toLowerCase_def)
  then have e: "extname name = drop k name"
    using assms(1) by (auto simp: extname_def Let_def last_portion_plain k_def split: if_splits)
  have len: "length (extname name) = length sfx"
    using assms(2) length_toLowerCase [of "extname name"] by simp
  with e have "length name - k = length sfx" by simp
  moreover from ne e have "k < length name" by auto
  ultimately have "k = length name - length sfx" "length sfx \<le> length name" by auto
  with e show ?thesis by simp
qed

lemma replace_suffix_ci_extname:
  assumes "CHR ''/'' \<notin> set name" and "toLowerCase (extname name) = sfx" and "sfx \<noteq> []"
  shows "replace_suffix_ci name sfx repl = take (length name - length sfx) name @ repl"
    and "toLowerCase (drop (length name - length sfx) name) = sfx"
  using extname_suffix [OF assms] assms(2)
  by (auto simp: replace_suffix_ci_def Let_def)

lemma docx_name:
  assumes "CHR ''/'' \<notin> set name" and "toLowerCase (extname name) = ''.docx''"
  shows "replace_suffix_ci name ''.docx'' repl = take (length name - 5) name @ repl"
    and "toLowerCase (drop (length name - 5) name) = ''.docx''"
  using assms replace_suffix_ci_extname [of name "''.docx''"] by (simp_all add: eval_nat_numeral)

lemma envelope_plain:
  "fileToDataUrlResponse buf mt fn [] =
     [(''fileName'', JStr fn), (''mimeType'', JStr mt),
      (''dataUrl'', JStr (''data:'' @ mt @ '';base64,'' @ base64 buf))]"
  by (simp add: fileToDataUrlResponse_def js_spread_def)

section \<open>Documents: the extension check\<close>

text \<open>
  C8: a docx-to-pdf request whose file has an extension other than \<open>.docx\<close>, compared
  in lower case, gets status 400 with \<open>Only .docx files are allowed\<close>, and no conversion
  is attempted. When the extension is \<open>.docx\<close>, the \<open>fileName\<close> of a response of status
  200 is the original name with its final \<open>.docx\<close>, in whatever case, replaced by
  \<open>.pdf\<close>. (The original name is the base name the upload middleware keeps, so it holds
  no path separator.)
\<close>
theorem docx_extension_check:
  assumes "req_file req = Some f"
      and "file_originalname f = name"
  shows "(toLowerCase (extname name) \<noteq> ''.docx'' \<longrightarrow>
            fst (docx_to_pdf E req) =
              Inr (json_resp 400 [(''error'', JStr ''Only .docx files are allowed'')])
            \<and> filter is_Conversion (snd (docx_to_pdf E req)) = []) \<and>
         (toLowerCase (extname name) = ''.docx'' \<and> CHR ''/'' \<notin> set name \<longrightarrow>
            (\<forall>r. fst (docx_to_pdf E req) = Inr r \<and> status r = 200 \<longrightarrow>
               (\<exists>stem sfx. name = stem @ sfx \<and> toLowerCase sfx = ''.docx''
                  \<and> get_prop r ''fileName'' = JStr (stem @ ''.pdf''))))"
proof (intro conjI impI allI)
  assume "toLowerCase (extname name) \<noteq> ''.docx''"
  then show "fst (docx_to_pdf E req) =
              Inr (json_resp 400 [(''error'', JStr ''Only .docx files are allowed'')])"
    and "filter is_Conversion (snd (docx_to_pdf E req)) = []"
    using assms by (simp_all add: docx_to_pdf_def Let_def io_defs)
next
  fix r
  assume a: "toLowerCase (extname name) = ''.docx'' \<and> CHR ''/'' \<notin> set name"
    and r: "fst (docx_to_pdf E req) = Inr r \<and> status r = 200"
  note rs = docx_name [OF conjunct2 [OF a] conjunct1 [OF a]]
  have "get_prop r ''fileName'' = JStr (take (length name - 5) name @ ''.pdf'')"
    using r a assms rs(1) [of "''.pdf''"]
    by (auto simp: docx_to_pdf_def Let_def io_defs envelope_plain get_prop_simps
        split: sum.splits)
  moreover have "name = take (length name - 5) name @ drop (length name - 5) name" by simp
  moreover have "toLowerCase (drop (length name - 5) name) = ''.docx''" using rs(2) by simp
  ultimately show "\<exists>stem sfx. name = stem @ sfx \<and> toLowerCase sfx = ''.docx''
                  \<and> get_prop r ''fileName'' = JStr (stem @ ''.pdf'')"
    by blast
qed

lemma ext_txt: "toLowerCase (extname ''notes.txt'') = ''.txt''" by code_simp
lemma ext_DOCX: "toLowerCase (extname ''Report.DOCX'') = ''.docx''" by code_simp

theorem docx_extension_check_witness:
  "fst (docx_to_pdf env_ok (upload_of (named_file ''notes.txt'' ''text/plain''))) =
     Inr (json_resp 400 [(''error'', JStr ''Only .docx files are allowed'')]) \<and>
   filter is_Conversion (snd (docx_to_pdf env_ok (upload_of (named_file ''notes.txt'' ''text/plain'')))) = [] \<and>
   (\<exists>r. fst (docx_to_pdf env_ok (upload_of (named_file ''Report.DOCX'' ''application/msword''))) = Inr r
      \<and> status r = 200 \<and> get_prop r ''fileName'' = JStr ''Report.pdf'')"
proof -
  let ?a = "named_file ''notes.txt'' ''text/plain''"
  let ?b = "named_file ''Report.DOCX'' ''application/msword''"
  have 1: "req_file (upload_of ?a) = Some ?a" "req_file (upload_of ?b) = Some ?b"
    by (simp_all add: upload_of_def)
  have 2: "file_originalname ?a = ''notes.txt''" "file_originalname ?b = ''Report.DOCX''"
    by (simp_all add: named_file_def)
  have 3: "toLowerCase (extname ''notes.txt'') \<noteq> ''.docx''" by (simp add: ext_txt)
  obtain r where r: "fst (docx_to_pdf env_ok (upload_of ?b)) = Inr r" "status r = 200"
    by (simp add: docx_to_pdf_def Let_def io_defs upload_of_def named_file_def ext_DOCX env_ok_def
        get_prop_simps)
  from docx_extension_check [OF 1(2) 2(2), of env_ok] r ext_DOCX
  obtain stem sfx where s: "''Report.DOCX'' = stem @ sfx" "toLowerCase sfx = ''.docx''"
      "get_prop r ''fileName'' = JStr (stem @ ''.pdf'')"
    by auto
  from s(2) have "length sfx = 5" using length_toLowerCase [of sfx] by simp
  moreover from s(1) have "length ''Report.DOCX'' = length stem + length sfx"
    by (metis length_append)
  ultimately have "length stem = 6" by simp
  then have "stem = take 6 (stem @ sfx)" by simp
  also have "\<dots> = ''Report''" by (simp flip: s(1))
  finally have "stem = ''Report''" .
  show ?thesis
    using docx_extension_check [OF 1(1) 2(1), of env_ok] 3 r s \<open>stem = ''Report''\<close> by auto
qed

section \<open>Base64 decodes to the bytes encoded\<close>

lemma index_of_nth: "distinct xs \<Longrightarrow> n < length xs \<Longrightarrow> index_of (xs ! n) xs = Some n"
proof (induction xs arbitrary: n)
  case Nil
  then show ?case by simp
next
  case (Cons x xs)
  show ?case
  proof (cases n)
    case 0
    then show ?thesis by simp
  next
    case (Suc k)
    with Cons.prems have "xs ! k \<in> set xs" by simp
    with Cons.prems have "xs ! k \<noteq> x" by auto
    with Cons Suc show ?thesis by simp
  qed
qed

lemma b64_alphabet_length: "length b64_alphabet = 64"
  by (simp add: b64_alphabet_def)

lemma b64_alphabet_distinct: "distinct b64_alphabet"
  by (simp add: b64_alphabet_def)

lemma b64_alphabet_pad: "CHR ''='' \<notin> set b64_alphabet"
  by (simp add: b64_alphabet_def)

lemma b64_val_char: "n < 64 \<Longrightarrow> b64_val (b64_char n) = Some n"
  by (simp add: b64_val_def b64_char_def index_of_nth b64_alphabet_distinct b64_alphabet_length)

lemma b64_char_pad:
  assumes "n < 64"
  shows "b64_char n \<noteq> CHR ''=''"
proof -
  have "b64_alphabet ! n \<in> set b64_alphabet"
    by (rule nth_mem) (simp add: b64_alphabet_length assms)
  with b64_alphabet_pad show ?thesis
    by (auto simp: b64_char_def)
qed

lemma unat_byte: "unat (a :: byte) < 256"
  using unsigned_less [of a, where 'a = nat] by simp

lemma of_nat_unat_byte: "n = unat a \<Longrightarrow> of_nat n = (a :: byte)"
  by simp

lemma sextets:
  fixes x y z :: nat
  assumes "x < 256" "y < 256" "z < 256"
  shows "x div 4 < 64" "x mod 4 * 16 + y div 16 < 64" "y mod 16 * 4 + z div 64 < 64"
    "z mod 64 < 64" "x mod 4 * 16 < 64" "y mod 16 * 4 < 64"
  using assms by (simp_all add: div_less_iff_less_mult)

lemma div_mod_digit:
  fixes a k n :: nat
  assumes "k < n"
  shows "(a * n + k) div n = a" "(a * n + k) mod n = k"
  using assms by simp_all

lemma regroup:
  fixes x y z :: nat
  assumes "y < 256" "z < 256"
  shows "x div 4 * 4 + (x mod 4 * 16 + y div 16) div 16 = x"
    "(x mod 4 * 16 + y div 16) mod 16 * 16 + (y mod 16 * 4 + z div 64) div 4 = y"
    "(y mod 16 * 4 + z div 64) mod 4 * 64 + z mod 64 = z"
    "x div 4 * 4 + x mod 4 * 16 div 16 = x"
    "(x mod 4 * 16 + y div 16) mod 16 * 16 + y mod 16 * 4 div 4 = y"
proof -
  have y: "y div 16 < 16" and z: "z div 64 < 4"
    using assms by (simp_all add: div_less_iff_less_mult)
  show "x div 4 * 4 + (x mod 4 * 16 + y div 16) div 16 = x"
    by (simp add: div_mod_digit(1) [OF y] y z)
  show "(x mod 4 * 16 + y div 16) mod 16 * 16 + (y mod 16 * 4 + z div 64) div 4 = y"
    by (simp add: div_mod_digit(2) [OF y] div_mod_digit(1) [OF z] y z)
  show "(y mod 16 * 4 + z div 64) mod 4 * 64 + z mod 64 = z"
    by (simp add: div_mod_digit(2) [OF z] y z)
  show "x div 4 * 4 + x mod 4 * 16 div 16 = x"
    by simp
  show "(x mod 4 * 16 + y div 16) mod 16 * 16 + y mod 16 * 4 div 4 = y"
    by (simp add: div_mod_digit(2) [OF y] y z)
qed

lemma decoded_bytes:
  fixes a b c :: byte
  shows "of_nat (unat a div 4 * 4 + (unat a mod 4 * 16 + unat b div 16) div 16) = a"
    and "of_nat ((unat a mod 4 * 16 + unat b div 16) mod 16 * 16
           + (unat b mod 16 * 4 + unat c div 64) div 4) = b"
    and "of_nat ((unat b mod 16 * 4 + unat c div 64) mod 4 * 64 + unat c mod 64) = c"
    and "of_nat (unat a div 4 * 4 + unat a mod 4 * 16 div 16) = a"
    and "of_nat ((unat a mod 4 * 16 + unat b div 16) mod 16 * 16 + unat b mod 16 * 4 div 4) = b"
  by (rule of_nat_unat_byte, rule regroup, rule unat_byte, rule unat_byte)+

lemma decode_group:
  assumes "v1 < 64" "v2 < 64" "v3 < 64" "v4 < 64"
  shows "base64_decode (b64_char v1 # b64_char v2 # b64_char v3 # b64_char v4 # rest) =
           map_option
             (\<lambda>bs. of_nat (v1 * 4 + v2 div 16) # of_nat (v2 mod 16 * 16 + v3 div 4)
                     # of_nat (v3 mod 4 * 64 + v4) # bs)
             (base64_decode rest)"
  using assms by (simp add: b64_val_char b64_char_pad split: option.splits)

lemma decode_pad1:
  assumes "v1 < 64" "v2 < 64" "v3 < 64"
  shows "base64_decode [b64_char v1, b64_char v2, b64_char v3, CHR ''=''] =
           Some [of_nat (v1 * 4 + v2 div 16), of_nat (v2 mod 16 * 16 + v3 div 4)]"
  using assms by (simp add: b64_val_char b64_char_pad)

lemma decode_pad2:
  assumes "v1 < 64" "v2 < 64"
  shows "base64_decode [b64_char v1, b64_char v2, CHR ''='', CHR ''=''] =
           Some [of_nat (v1 * 4 + v2 div 16)]"
  using assms by (simp add: b64_val_char)

lemma base64_roundtrip: "base64_decode (base64 bs) = Some bs"
proof (induction bs rule: base64.induct)
  case 1
  then show ?case by simp
next
  case (2 a)
  note s = sextets [OF unat_byte [of a] unat_byte [of a] unat_byte [of a]]
  show ?case
    by (simp only: base64.simps decode_pad2 [OF s(1) s(5)] decoded_bytes)
next
  case (3 a b)
  note s = sextets [OF unat_byte [of a] unat_byte [of b] unat_byte [of b]]
  show ?case
    by (simp only: base64.simps decode_pad1 [OF s(1) s(2) s(6)] decoded_bytes)
next
  case (4 a b c rest)
  note s = sextets [OF unat_byte [of a] unat_byte [of b] unat_byte [of c]]
  show ?case
    by (simp only: base64.simps append.simps decode_group [OF s(1) s(2) s(3) s(4)] 4
        decoded_bytes option.map)
qed

section \<open>Evaluating double arithmetic\<close>

lemma pow2_powi: "pow2 e = 2 powi e"
  by (simp add: pow2_def power_int_def inverse_eq_divide power_one_over)

lemma pow2_pos: "0 < pow2 e"
  by (simp add: pow2_powi)

lemma pow2_add: "pow2 (a + b) = pow2 a * pow2 b"
  by (simp add: pow2_powi power_int_add)

lemma pow2_mono: "a \<le> b \<Longrightarrow> pow2 a \<le> pow2 b"
  by (simp add: pow2_powi power_int_increasing)

lemma floor_log2_bounds:
  assumes "0 < m"
  shows "pow2 (floor_log2 m) \<le> m \<and> m < pow2 (floor_log2 m + 1)"
proof -
  obtain p q where pq: "quotient_of m = (p, q)" by (cases "quotient_of m")
  have q: "0 < q" using pq by (rule quotient_of_denom_pos)
  have m: "m = of_int p / of_int q" using pq by (rule quotient_of_div)
  have p: "0 < p" using assms q m by (simp add: zero_less_divide_iff)
  define bp where "bp = bitlen p"
  define bq where "bq = bitlen q"
  have bp1: "1 \<le> bp" using p by (simp add: bp_def bitlen_alt_def)
  have bq1: "1 \<le> bq" using q by (simp add: bq_def bitlen_alt_def)
  have "2 ^ nat (bp - 1) \<le> p" "p < 2 ^ nat bp"
    using bitlen_bounds [OF p] by (simp_all add: bp_def)
  then have P: "pow2 (bp - 1) \<le> of_int p" "of_int p < pow2 bp"
    using bp1 by (simp_all add: pow2_def)
  have "2 ^ nat (bq - 1) \<le> q" "q < 2 ^ nat bq"
    using bitlen_bounds [OF q] by (simp_all add: bq_def)
  then have Q: "pow2 (bq - 1) \<le> of_int q" "of_int q < pow2 bq"
    using bq1 by (simp_all add: pow2_def)
  have qpos: "(0::rat) < of_int q" using q by simp
  have "pow2 (bp - bq - 1) * of_int q \<le> pow2 (bp - bq - 1) * pow2 bq"
    using Q(2) pow2_pos [of "bp - bq - 1"] by simp
  also have "\<dots> = pow2 (bp - 1)" by (simp add: pow2_add [symmetric])
  also have "\<dots> \<le> of_int p" by (rule P(1))
  finally have lo: "pow2 (bp - bq - 1) \<le> m"
    using qpos by (simp add: m pos_le_divide_eq)
  have "of_int p < pow2 bp" by (rule P(2))
  also have "\<dots> = pow2 (bp - bq + 1) * pow2 (bq - 1)" by (simp add: pow2_add [symmetric])
  also have "\<dots> \<le> pow2 (bp - bq + 1) * of_int q"
    using Q(1) pow2_pos [of "bp - bq + 1"] by simp
  finally have hi: "m < pow2 (bp - bq + 1)"
    using qpos by (simp add: m pos_divide_less_eq)
  show ?thesis
    using lo hi by (simp add: floor_log2_def pq Let_def bp_def bq_def)
qed

lemma floor_log2_unique:
  assumes "pow2 e \<le> m" "m < pow2 (e + 1)"
  shows "floor_log2 m = e"
proof -
  have m: "0 < m" using assms(1) pow2_pos [of e] by simp
  note b = floor_log2_bounds [OF m]
  have "\<not> floor_log2 m < e"
  proof
    assume "floor_log2 m < e"
    then have "pow2 (floor_log2 m + 1) \<le> pow2 e" by (intro pow2_mono) simp
    with b assms show False by simp
  qed
  moreover have "\<not> e < floor_log2 m"
  proof
    assume "e < floor_log2 m"
    then have "pow2 (e + 1) \<le> pow2 (floor_log2 m)" by (intro pow2_mono) simp
    with b assms show False by simp
  qed
  ultimately show ?thesis by simp
qed

lemma round_half_even_near:
  assumes "of_int n - 1 / 2 < x" "x < of_int n + 1 / 2"
  shows "round_half_even x = n"
proof (cases "of_int n \<le> x")
  case True
  with assms have "\<lfloor>x\<rfloor> = n" by (intro floor_unique) simp_all
  with assms show ?thesis by (simp add: round_half_even_def Let_def)
next
  case False
  with assms have "\<lfloor>x\<rfloor> = n - 1" by (intro floor_unique) simp_all
  with assms False show ?thesis by (simp add: round_half_even_def Let_def)
qed

lemma round_half_even_int: "round_half_even (of_int n) = n"
  by (rule round_half_even_near) simp_all

text \<open>The rounding of a magnitude, from the exponent and significand to be checked.\<close>

lemma round_mag_eval:
  assumes "pow2 e \<le> m" "m < pow2 (e + 1)" "- 1022 \<le> e"
      and "of_int n - 1 / 2 < m / pow2 (e - 52)" "m / pow2 (e - 52) < of_int n + 1 / 2"
      and "of_int n * pow2 (e - 52) < pow2 1024"
  shows "round_mag m = Some (of_int n * pow2 (e - 52))"
proof -
  have m: "0 < m" using assms(1) pow2_pos [of e] by simp
  have "floor_log2 m = e" using assms(1,2) by (rule floor_log2_unique)
  moreover have "round_half_even (m / pow2 (e - 52)) = n"
    using assms(4,5) by (rule round_half_even_near)
  ultimately show ?thesis using m assms(3,6)
    by (simp add: round_mag_def Let_def max_def)
qed

lemma envelope_image:
  "fileToDataUrlResponse buf mt fn
     [(''originalSize'', a), (''compressedSize'', b), (''compressionRatio'', c)] =
     [(''fileName'', JStr fn), (''mimeType'', JStr mt),
      (''dataUrl'', JStr (''data:'' @ mt @ '';base64,'' @ base64 buf)),
      (''originalSize'', a), (''compressedSize'', b), (''compressionRatio'', c)]"
  by (simp add: fileToDataUrlResponse_def js_spread_def)

section \<open>Images: the reported sizes\<close>

text \<open>
  C7: for an image-compression request that passes validation and whose image is
  encoded, the response has status 200, its \<open>dataUrl\<close> is
  \<open>data:image/jpeg;base64,\<close> followed by a payload that decodes to the encoded buffer,
  \<open>compressedSize\<close> is the number of bytes of that buffer, \<open>originalSize\<close> is the size of
  the uploaded file, and \<open>compressionRatio\<close> is the one divided by the other (as
  JavaScript divides Numbers).
\<close>
theorem image_sizes:
  assumes "req_file req = Some f"
      and "file_mimetype f \<in> {''image/jpeg'', ''image/png'', ''image/webp''}"
      and "sharp_jpeg E (file_path f) 70 = Inr buf"
  shows "\<exists>r payload decoded.
           fst (image_compress E req) = Inr r \<and> status r = 200 \<and>
           get_prop r ''dataUrl'' = JStr (''data:image/jpeg;base64,'' @ payload) \<and>
           base64_decode payload = Some decoded \<and> decoded = buf \<and>
           get_prop r ''compressedSize'' = JNum (js_of_nat (length decoded)) \<and>
           get_prop r ''originalSize'' = JNum (js_of_nat (file_size f)) \<and>
           get_prop r ''compressionRatio'' =
             JNum (js_div (js_of_nat (length decoded)) (js_of_nat (file_size f)))"
proof -
  let ?r = "json_resp 200
      (fileToDataUrlResponse buf ''image/jpeg'' (uuidv4 E @ ''.jpg'')
         [(''originalSize'', JNum (js_of_nat (file_size f))),
          (''compressedSize'', JNum (js_of_nat (length buf))),
          (''compressionRatio'', JNum (js_div (js_of_nat (length buf)) (js_of_nat (file_size f))))])"
  have "fst (image_compress E req) = Inr ?r"
    using assms by (auto simp: image_compress_def Let_def io_defs sharp_jpeg_toBuffer_def)
  moreover have "status ?r = 200"
    by (simp add: get_prop_simps)
  moreover have "get_prop ?r ''dataUrl'' = JStr (''data:image/jpeg;base64,'' @ base64 buf)"
    "get_prop ?r ''compressedSize'' = JNum (js_of_nat (length buf))"
    "get_prop ?r ''originalSize'' = JNum (js_of_nat (file_size f))"
    "get_prop ?r ''compressionRatio'' =
       JNum (js_div (js_of_nat (length buf)) (js_of_nat (file_size f)))"
    by (simp_all add: envelope_image get_prop_simps)
  moreover have "base64_decode (base64 buf) = Some buf"
    by (rule base64_roundtrip)
  ultimately show ?thesis by blast
qed

lemma half: "js_div (js_of_nat 2) (js_of_nat 4) = Fin False (1 / 2)"
  using round_mag_eval [of "-1" "1/2" 4503599627370496]
  by (simp add: js_of_nat_def round_double_def pow2_def)

theorem image_sizes_witness:
  "\<exists>r payload decoded.
     fst (image_compress env_ok (upload_of (named_file ''photo.png'' ''image/png''))) = Inr r \<and>
     status r = 200 \<and>
     get_prop r ''dataUrl'' = JStr (''data:image/jpeg;base64,'' @ payload) \<and>
     base64_decode payload = Some decoded \<and> decoded = [255, 216] \<and>
     get_prop r ''compressedSize'' = JNum (js_of_nat 2) \<and>
     get_prop r ''originalSize'' = JNum (js_of_nat 4) \<and>
     get_prop r ''compressionRatio'' = JNum (Fin False (1 / 2))"
proof -
  let ?f = "named_file ''photo.png'' ''image/png''"
  have 1: "req_file (upload_of ?f) = Some ?f" by (simp add: upload_of_def)
  have 2: "file_mimetype ?f \<in> {''image/jpeg'', ''image/png'', ''image/webp''}"
    by (simp add: named_file_def)
  have 3: "sharp_jpeg env_ok (file_path ?f) 70 = Inr [255, 216]"
    by (simp add: env_ok_def)
  have 4: "file_size ?f = 4" by (simp add: named_file_def)
  from image_sizes [OF 1 2 3] obtain r payload decoded where
    r: "fst (image_compress env_ok (upload_of ?f)) = Inr r" "status r = 200"
      "get_prop r ''dataUrl'' = JStr (''data:image/jpeg;base64,'' @ payload)"
      "base64_decode payload = Some decoded" "decoded = [255, 216]"
      "get_prop r ''compressedSize'' = JNum (js_of_nat (length decoded))"
      "get_prop r ''originalSize'' = JNum (js_of_nat (file_size ?f))"
      "get_prop r ''compressionRatio'' =
         JNum (js_div (js_of_nat (length decoded)) (js_of_nat (file_size ?f)))"
    by blast
  have 5: "length decoded = 2" using r(5) by simp
  show ?thesis
    using r unfolding 4 5 half by blast
qed

section \<open>Cleanup of staged files\<close>

lemma docx_removals:
  assumes "req_file req = Some f"
  shows "removals (file_path f) (snd (docx_to_pdf E req)) =
           (if toLowerCase (extname (file_originalname f)) \<noteq> ''.docx'' then 2 else 1)"
  using assms
  by (auto simp: docx_to_pdf_def Let_def io_defs removals_def split: sum.splits)

lemma pdf_removals:
  assumes "req_file req = Some f"
  shows "removals (file_path f) (snd (pdf_to_docx E req)) =
           (if toLowerCase (extname (file_originalname f)) \<noteq> ''.pdf'' then 2 else 1)"
  using assms
  by (auto simp: pdf_to_docx_def Let_def io_defs removals_def split: sum.splits)

lemma image_removals:
  assumes "req_file req = Some f"
  shows "removals (file_path f) (snd (image_compress E req)) =
           (if file_mimetype f \<notin> {''image/jpeg'', ''image/png'', ''image/webp''} then 2 else 1)"
  using assms
  by (auto simp: image_compress_def Let_def io_defs removals_def sharp_jpeg_toBuffer_def
      split: sum.splits)

lemma audio_removals:
  assumes "req_file req = Some f"
      and "file_path f \<noteq> audio_outputPath E (toLowerCase (targetFormat_of req))"
  shows "removals (file_path f) (snd (audio_convert E req)) = 1"
  using assms
  by (auto simp: audio_convert_def Let_def io_defs removals_def run_ffmpeg_def
      split: sum.splits proc_result.splits)

lemma audio_output_removal:
  assumes "req_file req = Some f"
      and "toLowerCase (targetFormat_of req) \<in> set allowedOutputFormats"
      and "file_mimetype f \<in> set allowedInputTypes"
  shows "\<exists>t. snd (audio_convert E req) =
           t @ [Unlink (file_path f),
                Unlink (audio_outputPath E (toLowerCase (targetFormat_of req)))]
           \<and> (\<forall>p. Unlink p \<notin> set t)"
  using assms
  by (auto simp: audio_convert_def Let_def io_defs run_ffmpeg_def
      split: sum.splits proc_result.splits)

text \<open>
  C1 asks for exactly one removal attempt on each staged file. The document and image
  handlers make two when the file is rejected: one before the 400 response is returned
  inside \<open>try\<close>, and one in \<open>finally\<close> (\<open>docx_removals\<close>, \<open>pdf_removals\<close>,
  \<open>image_removals\<close>); the audio handler, which validates before \<open>try\<close>, makes one
  (\<open>audio_removals\<close>). Here is a rejected \<open>.txt\<close> upload to docx-to-pdf.
\<close>
theorem docx_rejected_file_removed_twice:
  "fst (docx_to_pdf env_ok (upload_of (named_file ''notes.txt'' ''text/plain''))) =
     Inr (json_resp 400 [(''error'', JStr ''Only .docx files are allowed'')]) \<and>
   snd (docx_to_pdf env_ok (upload_of (named_file ''notes.txt'' ''text/plain''))) =
     [Unlink ''/srv/uploads/f3'', Unlink ''/srv/uploads/f3''] \<and>
   removals ''/srv/uploads/f3''
     (snd (docx_to_pdf env_ok (upload_of (named_file ''notes.txt'' ''text/plain'')))) = 2"
  by (simp add: docx_to_pdf_def Let_def io_defs removals_def upload_of_def named_file_def ext_txt)

section \<open>The envelope\<close>

lemma js_spread_other:
  "k \<notin> fst ` set extra \<Longrightarrow> map_of (js_spread obj extra) k = map_of obj k"
  unfolding js_spread_def
  by (induction extra arbitrary: obj) (auto simp: update_conv')

text \<open>The data URL of every envelope: the MIME type, and a payload that decodes to the
  bytes given to the encoder.\<close>

lemma envelope_dataUrl:
  assumes "''dataUrl'' \<notin> fst ` set extra"
  shows "\<exists>payload.
           map_of (fileToDataUrlResponse buf mt fn extra) ''dataUrl'' =
             Some (JStr (''data:'' @ mt @ '';base64,'' @ payload))
           \<and> base64_decode payload = Some buf"
  using assms by (simp add: fileToDataUrlResponse_def js_spread_other base64_roundtrip)

text \<open>A name with a final extension does get the extension of the target format.\<close>

lemma replace_final_ext_found:
  assumes "ext \<noteq> []" and "CHR ''.'' \<notin> set ext"
  shows "replace_final_ext (stem @ ''.'' @ ext) repl = stem @ repl"
proof -
  have "takeWhile (\<lambda>c. c \<noteq> CHR ''.'') (rev (stem @ ''.'' @ ext)) = rev ext"
    using assms(2) by (auto simp: takeWhile_tail)
  then show ?thesis
    using assms(1) by (simp add: replace_final_ext_def Let_def)
qed

lemma ext_song: "replace_final_ext ''song'' ''.mp3'' = ''song''" by code_simp

text \<open>
  C4 asks that the extension of \<open>fileName\<close> match \<open>mimeType\<close>. The audio handler
  replaces the final extension of the original name, and a name without one is returned
  as it is: the upload \<open>song\<close> converted to mp3 is answered with the file name \<open>song\<close>
  and the MIME type \<open>audio/mpeg\<close>. (The data URL part of C4 holds, \<open>envelope_dataUrl\<close>,
  and a name that has a final extension gets the new one, \<open>replace_final_ext_found\<close>.)
\<close>
theorem audio_name_without_extension:
  "\<exists>r. fst (audio_convert env_ok (upload_of (named_file ''song'' ''audio/wav''))) = Inr r \<and>
      status r = 200 \<and>
      get_prop r ''fileName'' = JStr ''song'' \<and>
      get_prop r ''mimeType'' = JStr ''audio/mpeg''"
  by (simp add: audio_convert_def Let_def io_defs run_ffmpeg_def upload_of_def named_file_def
      targetFormat_of_def lower_mp3 allowedOutputFormats_def allowedInputTypes_def env_ok_def
      envelope_audio get_prop_simps audio_mimeType_def ext_song)

section \<open>Evaluating numbers\<close>








section \<open>BMI: validation\<close>




section \<open>Reading back the output of toFixed\<close>




















section \<open>BMI: the value and the category\<close>







































section \<open>Audio: the target format\<close>

text \<open>On text fields the two embeddings of the audio handler agree.\<close>

lemma audio_convert_form_text:
  "audio_convert_form E
     \<lparr>form_file = req_file req,
      form_targetFormat = map_option FText (req_body req ''targetFormat''),
      form_bitrate = req_body req ''bitrate''\<rparr> = audio_convert E req"
  by (cases "req_file req"; cases "req_body req ''targetFormat''")
    (simp_all add: audio_convert_form_def audio_convert_def String_io_def targetFormat_of_def
      bitrate_of_def bind_io_def Let_def split: prod.splits)











end
